theory Spec2Isabelle
  imports Complex_Main
begin

section \<open>Host-side values\<close>

text \<open>
  The element types that occur in the converter: \<open>np.float32\<close>, \<open>np.float64\<close>,
  \<open>np.int64\<close>, and \<open>object\<close>, which is the dtype numpy gives to an array
  built with a Python class that is not a numeric type (such as the builtin \<open>type\<close>).
\<close>

datatype np_dtype = Float32 | Float64 | Int64 | PyObject

text \<open>
  The contents of an array. Numbers are idealised as reals. An array of rank one is
  \<open>Vec\<close>. An array of rank two with at least one row is \<open>Mat\<close>, the list of its
  rows, which all have one length. \<open>Opaque s\<close> is an array of shape \<open>s\<close> whose
  elements are not tracked: an array of rank two without rows (its rows cannot tell the
  number of its columns), an array of any other rank, or an array with non-finite entries.
\<close>

datatype tensor = Vec "real list" | Mat "real list list" | Opaque "nat list"

datatype ndarray = NdArray (dtype: np_dtype) (elems: tensor)

definition ncols :: "real list list \<Rightarrow> nat" where
  "ncols rows = (case rows of [] \<Rightarrow> 0 | r # _ \<Rightarrow> length r)"

fun np_shape :: "tensor \<Rightarrow> nat list" where
  "np_shape (Vec xs) = [length xs]"
| "np_shape (Mat rows) = [length rows, ncols rows]"
| "np_shape (Opaque s) = s"

text \<open>
  \<open>proper t\<close>: the contents \<open>t\<close> stand for an array, a list of rows being one only if
  it is not empty and its rows have one length. \<open>matrix m rows\<close> is the array of rank
  two with these rows and \<open>m\<close> columns, also when there is no row.
\<close>

definition rectangular :: "real list list \<Rightarrow> bool" where
  "rectangular rows = list_all (\<lambda>r. length r = ncols rows) rows"

fun proper :: "tensor \<Rightarrow> bool" where
  "proper (Vec xs) = True"
| "proper (Mat rows) = (rows \<noteq> [] \<and> rectangular rows)"
| "proper (Opaque s) = True"

definition matrix :: "nat \<Rightarrow> real list list \<Rightarrow> tensor" where
  "matrix m rows = (if rows = [] then Opaque [0, m] else Mat rows)"

text \<open>\<open>a.T\<close>: the axes reversed.\<close>

definition transpose_rows :: "real list list \<Rightarrow> real list list" where
  "transpose_rows rows = map (\<lambda>j. map (\<lambda>r. r ! j) rows) [0..<ncols rows]"

fun np_T :: "tensor \<Rightarrow> tensor" where
  "np_T (Vec xs) = Vec xs"
| "np_T (Mat rows) = matrix (length rows) (transpose_rows rows)"
| "np_T (Opaque s) = Opaque (rev s)"

text \<open>
  \<open>np.array(xs, dtype=dt)\<close> for a list of numbers: with \<open>dt = None\<close> numpy infers the
  element type from the numbers (\<open>inferred\<close>: int64 for integer literals, float64 for
  floats). \<open>a.astype(dt)\<close> keeps the contents; \<open>astype(None)\<close> is float64.
\<close>

definition np_array :: "np_dtype \<Rightarrow> real list \<Rightarrow> np_dtype option \<Rightarrow> ndarray" where
  "np_array inferred xs dt = NdArray (case dt of None \<Rightarrow> inferred | Some d \<Rightarrow> d) (Vec xs)"

definition astype :: "tensor \<Rightarrow> np_dtype option \<Rightarrow> ndarray" where
  "astype t dt = NdArray (case dt of None \<Rightarrow> Float64 | Some d \<Rightarrow> d) t"

section \<open>Kernel expressions\<close>

text \<open>
  A hyper-parameter is a Python \<open>float\<close> or a one-dimensional array. The smoothness
  of a Matern kernel is a number or \<open>np.inf\<close>.
\<close>

datatype param = PyNum real | PyArr "real list"

datatype nu = Nu real | NuInf

fun param_map :: "(real \<Rightarrow> real) \<Rightarrow> param \<Rightarrow> param" where
  "param_map f (PyNum x) = PyNum (f x)"
| "param_map f (PyArr xs) = PyArr (map f xs)"

text \<open>
  The kernel classes the converter dispatches on, by exact class; \<open>OtherKernel\<close> is any
  other kernel class, named.
\<close>

datatype kernel =
    Sum kernel kernel
  | Product kernel kernel
  | ConstantKernel real
  | RBF param
  | Matern param nu
  | RationalQuadratic param real
  | ExpSineSquared param real
  | DotProduct param
  | PairwiseKernel string
  | WhiteKernel real
  | OtherKernel string

section \<open>Errors and graphs\<close>

text \<open>
  An exception is its class and its message; the messages are the source's, without the
  values formatted into them.
\<close>

datatype error =
    RuntimeError string
  | ValueError string
  | TypeError string
  | NotImplementedError string
  | AttributeError string
  | AxisError string
  | OverflowError string

definition and_then :: "error + 'a \<Rightarrow> ('a \<Rightarrow> error + 'b) \<Rightarrow> error + 'b" where
  "and_then r f = (case r of Inl e \<Rightarrow> Inl e | Inr x \<Rightarrow> f x)"

text \<open>
  \<open>from_array\<close> of \<open>onnx.numpy_helper\<close> wraps an array as a tensor constant of the
  same type and contents. It reads the entries of an object array as strings and raises
  for an entry that is none, as the numbers of the arrays built here are.
\<close>

definition from_array :: "ndarray \<Rightarrow> error + ndarray" where
  "from_array a =
     (if dtype a = PyObject
      then Inl (NotImplementedError ''Unrecognized object in the object array'')
      else Inr a)"

datatype metric = euclidean | sqeuclidean

text \<open>
  A graph under construction. A node is an operator applied to one or two operands,
  with the \<open>output_names\<close> and the \<open>op_version\<close> it was built with; an operand is a
  named graph input, an array, or another node. The operators carry their attributes.
  \<open>onnx_cdist\<close> and \<open>onnx_squareform_pdist\<close> stand for the sub-graphs those two
  functions of \<open>algebra.complex_functions\<close> build from elementary operators.
\<close>

datatype unop =
    OnnxExp
  | OnnxNeg
  | OnnxSin
  | OnnxIdentity
  | OnnxShape
  | OnnxEyeLike
  | OnnxTranspose "nat list"
  | OnnxSqueezeApi11 "nat list"
  | OnnxReduceSumSquareApi18 "nat list"
  | OnnxReduceL2_typed "np_dtype option" "nat list"
  | OnnxConstantOfShape ndarray
  | onnx_squareform_pdist metric "np_dtype option"

datatype binop =
    OnnxAdd
  | OnnxMul
  | OnnxDiv
  | OnnxPow
  | OnnxMatMul
  | OnnxGather
  | OnnxConcat int
  | OnnxCDist metric
  | onnx_cdist metric "np_dtype option"

datatype onnx =
    Var string
  | Cst ndarray
  | Op1 unop onnx "string list option" nat
  | Op2 binop onnx onnx "string list option" nat

section \<open>The converter\<close>

text \<open>
  \<open>cst ** 2\<close>. The power of a Python float raises \<open>OverflowError\<close> when its result
  is not finite: when the square reaches \<open>2 ^ 1024 - 2 ^ 970\<close>, half a unit in the
  last place above the largest double, from where on rounding gives infinity. The power
  of an array is taken entry by entry and does not raise.
\<close>

definition float_overflow :: "real \<Rightarrow> bool" where
  "float_overflow y = (2 ^ 1024 - 2 ^ 970 \<le> \<bar>y\<bar>)"

fun py_square :: "param \<Rightarrow> error + param" where
  "py_square (PyNum x) =
     (if float_overflow (x ^ 2) then Inl (OverflowError ''Numerical result out of range'')
      else Inr (PyNum (x ^ 2)))"
| "py_square (PyArr xs) = Inr (PyArr (map (\<lambda>x. x ^ 2) xs))"

text \<open>
  \<open>py_make_float_array\<close>. Its test that \<open>cst\<close> is a number never fails here, a
  hyper-parameter being a number or an array.
\<close>

definition py_make_float_array :: "param \<Rightarrow> np_dtype option \<Rightarrow> bool \<Rightarrow> error + ndarray" where
  "py_make_float_array cst dt as_tensor =
     (if dt \<noteq> Some Float32 \<and> dt \<noteq> Some Float64
      then Inl (TypeError ''A float array must be of dtype np.float32 or np.float64'')
      else (case cst of
              PyArr xs \<Rightarrow>
                (if as_tensor then from_array (astype (Vec xs) dt) else Inr (astype (Vec xs) dt))
            | PyNum c \<Rightarrow>
                (if as_tensor then from_array (np_array Float64 [c] dt)
                 else Inr (np_array Float64 [c] dt))))"

text \<open>
  Modelled from the spec: the constructors of the operator classes are in
  \<open>algebra.onnx_ops\<close>, not in the converter's file, which allows for a missing
  \<open>OnnxConstantOfShape\<close> where it imports it. By section 3 of the specification a
  mismatched operator-set version is a hard failure when a node is built. The operator
  \<open>ConstantOfShape\<close> exists from revision 9 of the operator set on, and its constructor
  raises a runtime error for an older version. No other constructor is taken to fail: the
  other operators the converter builds exist in every revision from 9 on, and revisions
  before 9 are told apart by this operator only.
\<close>

definition OnnxConstantOfShape_node ::
  "onnx \<Rightarrow> string list option \<Rightarrow> nat \<Rightarrow> ndarray \<Rightarrow> error + onnx" where
  "OnnxConstantOfShape_node shape output_names v val =
     (if v < 9
      then Inl (RuntimeError ''Operator OnnxConstantOfShape: requested version < 9 schema version.'')
      else Inr (Op1 (OnnxConstantOfShape val) shape output_names v))"

text \<open>\<open>_zero_vector_of_size\<close>; \<open>keepdims\<close> is read as a truth value.\<close>

definition zero_vector_of_size ::
  "onnx \<Rightarrow> string list option \<Rightarrow> int \<Rightarrow> int option \<Rightarrow> np_dtype option \<Rightarrow> nat option
     \<Rightarrow> error + onnx" where
  "zero_vector_of_size X output_names axis keepdims dt op_version =
     (case op_version of
        None \<Rightarrow> Inl (RuntimeError ''op_version must not be None.'')
      | Some v \<Rightarrow>
        (case keepdims of
           None \<Rightarrow> Inl (ValueError ''Default for keepdims is not allowed.'')
         | Some kd \<Rightarrow>
            (let shape = Op1 OnnxShape X None v;
                 new_shape =
                   (if axis = 0 then
                      (let dim = Op2 OnnxGather shape (Cst (np_array Int64 [0] (Some Int64))) None v
                       in if kd \<noteq> 0
                          then Op2 (OnnxConcat 0) dim (Cst (np_array Int64 [1] (Some Int64))) None v
                          else dim)
                    else
                      (let dim = Op2 OnnxGather shape (Cst (np_array Int64 [1] (Some Int64))) None v
                       in if kd \<noteq> 0
                          then Op2 (OnnxConcat 0) (Cst (np_array Int64 [1] (Some Int64))) dim None v
                          else dim))
             in and_then (from_array (np_array Int64 [0] dt))
                  (OnnxConstantOfShape_node new_shape output_names v))))"

text \<open>
  \<open>convert_kernel_diag\<close> and, below, \<open>convert_kernel\<close>: one equation for each class
  the source tests for, each starting with the test of \<open>op_version\<close>. The sub-kernels of
  a sum or a product are compiled left to right with no output names, and the first
  exception ends the compilation.
\<close>

fun convert_kernel_diag ::
  "kernel \<Rightarrow> onnx \<Rightarrow> string list option \<Rightarrow> np_dtype option \<Rightarrow> string option \<Rightarrow> nat option
     \<Rightarrow> error + onnx" where
  "convert_kernel_diag (Sum k1 k2) X output_names dt optim op_version =
     (case op_version of
        None \<Rightarrow> Inl (RuntimeError ''op_version must not be None.'')
      | Some v \<Rightarrow>
        (case convert_kernel_diag k1 X None dt optim op_version of
           Inl e \<Rightarrow> Inl e
         | Inr a \<Rightarrow>
           (case convert_kernel_diag k2 X None dt optim op_version of
              Inl e \<Rightarrow> Inl e
            | Inr b \<Rightarrow> Inr (Op2 OnnxAdd a b output_names v))))"
| "convert_kernel_diag (Product k1 k2) X output_names dt optim op_version =
     (case op_version of
        None \<Rightarrow> Inl (RuntimeError ''op_version must not be None.'')
      | Some v \<Rightarrow>
        (case convert_kernel_diag k1 X None dt optim op_version of
           Inl e \<Rightarrow> Inl e
         | Inr a \<Rightarrow>
           (case convert_kernel_diag k2 X None dt optim op_version of
              Inl e \<Rightarrow> Inl e
            | Inr b \<Rightarrow> Inr (Op2 OnnxMul a b output_names v))))"
| "convert_kernel_diag (ConstantKernel constant_value) X output_names dt optim op_version =
     (case op_version of
        None \<Rightarrow> Inl (RuntimeError ''op_version must not be None.'')
      | Some v \<Rightarrow>
        and_then (zero_vector_of_size X None 0 (Some 0) dt op_version) (\<lambda>onnx_zeros.
          Inr (Op2 OnnxAdd onnx_zeros (Cst (np_array Float64 [constant_value] dt))
                 output_names v)))"
| "convert_kernel_diag (RBF length_scale) X output_names dt optim op_version =
     (case op_version of
        None \<Rightarrow> Inl (RuntimeError ''op_version must not be None.'')
      | Some v \<Rightarrow>
        and_then (zero_vector_of_size X None 0 (Some 0) dt op_version) (\<lambda>onnx_zeros.
          Inr (Op2 OnnxAdd onnx_zeros (Cst (np_array Int64 [1] dt)) output_names v)))"
| "convert_kernel_diag (ExpSineSquared length_scale periodicity) X output_names dt optim op_version =
     (case op_version of
        None \<Rightarrow> Inl (RuntimeError ''op_version must not be None.'')
      | Some v \<Rightarrow>
        and_then (zero_vector_of_size X None 0 (Some 0) dt op_version) (\<lambda>onnx_zeros.
          Inr (Op2 OnnxAdd onnx_zeros (Cst (np_array Int64 [1] dt)) output_names v)))"
| "convert_kernel_diag (RationalQuadratic length_scale alpha) X output_names dt optim op_version =
     (case op_version of
        None \<Rightarrow> Inl (RuntimeError ''op_version must not be None.'')
      | Some v \<Rightarrow>
        and_then (zero_vector_of_size X None 0 (Some 0) dt op_version) (\<lambda>onnx_zeros.
          Inr (Op2 OnnxAdd onnx_zeros (Cst (np_array Int64 [1] dt)) output_names v)))"
| "convert_kernel_diag (Matern length_scale nu) X output_names dt optim op_version =
     (case op_version of
        None \<Rightarrow> Inl (RuntimeError ''op_version must not be None.'')
      | Some v \<Rightarrow>
        and_then (zero_vector_of_size X None 0 (Some 0) dt op_version) (\<lambda>onnx_zeros.
          Inr (Op2 OnnxAdd onnx_zeros (Cst (np_array Int64 [1] dt)) output_names v)))"
| "convert_kernel_diag (DotProduct sigma_0) X output_names dt optim op_version =
     (case op_version of
        None \<Rightarrow> Inl (RuntimeError ''op_version must not be None.'')
      | Some v \<Rightarrow>
        and_then (py_square sigma_0) (\<lambda>sigma_0_2.
        and_then (py_make_float_array sigma_0_2 dt False) (\<lambda>t_sigma_0.
          Inr (Op1 (OnnxSqueezeApi11 [1])
                 (Op2 OnnxAdd (Op1 (OnnxReduceSumSquareApi18 [1]) X None v) (Cst t_sigma_0) None v)
                 output_names v))))"
| "convert_kernel_diag _ X output_names dt optim op_version =
     (case op_version of
        None \<Rightarrow> Inl (RuntimeError ''op_version must not be None.'')
      | Some v \<Rightarrow> Inl (RuntimeError ''Unable to convert diag method for class''))"


text \<open>
  The distance chosen by the optimisation flag, as the formula compilers for
  \<open>ExpSineSquared\<close> and \<open>RationalQuadratic\<close> choose it.
\<close>

definition convert_exp_sine_squared ::
  "onnx \<Rightarrow> onnx \<Rightarrow> param \<Rightarrow> real \<Rightarrow> np_dtype option \<Rightarrow> string option \<Rightarrow> nat
     \<Rightarrow> string list option \<Rightarrow> error + onnx" where
  "convert_exp_sine_squared X Y length_scale periodicity dt optim v output_names =
     and_then
       (if optim = None then Inr (Op2 (onnx_cdist euclidean dt) X Y None v)
        else if optim = Some ''cdist'' then Inr (Op2 (OnnxCDist euclidean) X Y None v)
        else Inl (ValueError ''Unknown optimization''))
       (\<lambda>dists.
     and_then (py_make_float_array (PyNum pi) dt False) (\<lambda>t_pi.
     and_then (py_make_float_array (PyNum periodicity) dt False) (\<lambda>t_periodicity.
       (let arg = Op2 OnnxMul (Op2 OnnxDiv dists (Cst t_periodicity) None v) (Cst t_pi) None v;
            sin_of_arg = Op1 OnnxSin arg None v
        in
     and_then (py_make_float_array (PyNum 2) dt False) (\<lambda>t_2.
     and_then (py_make_float_array (PyNum (- 2)) dt False) (\<lambda>t__2.
     and_then (py_make_float_array length_scale dt False) (\<lambda>t_length_scale.
       (let K = Op1 OnnxExp
                  (Op2 OnnxMul
                     (Op2 OnnxPow (Op2 OnnxDiv sin_of_arg (Cst t_length_scale) None v)
                        (Cst t_2) None v)
                     (Cst t__2) None v)
                  None v
        in Inr (Op1 OnnxIdentity K output_names v)))))))))"

definition convert_dot_product ::
  "onnx \<Rightarrow> onnx \<Rightarrow> param \<Rightarrow> np_dtype option \<Rightarrow> nat \<Rightarrow> string list option \<Rightarrow> error + onnx" where
  "convert_dot_product X Y sigma_0 dt v output_names =
     and_then (py_square sigma_0) (\<lambda>sigma_0_2.
     and_then (py_make_float_array sigma_0_2 dt False) (\<lambda>t_sigma_0.
       (let tr = (case Y of
                    Cst a \<Rightarrow> Cst (astype (np_T (elems a)) dt)
                  | _ \<Rightarrow> Op1 (OnnxTranspose [1, 0]) Y None v);
            matm = Op2 OnnxMatMul X tr None v;
            K = Op2 OnnxAdd matm (Cst t_sigma_0) None v
        in Inr (Op1 OnnxIdentity K output_names v))))"

definition convert_rational_quadratic ::
  "onnx \<Rightarrow> onnx \<Rightarrow> param \<Rightarrow> real \<Rightarrow> np_dtype option \<Rightarrow> string option \<Rightarrow> nat
     \<Rightarrow> string list option \<Rightarrow> error + onnx" where
  "convert_rational_quadratic X Y length_scale alpha dt optim v output_names =
     and_then
       (if optim = None then Inr (Op2 (onnx_cdist sqeuclidean dt) X Y None v)
        else if optim = Some ''cdist'' then Inr (Op2 (OnnxCDist sqeuclidean) X Y None v)
        else Inl (ValueError ''Unknown optimization''))
       (\<lambda>dists.
     and_then (py_square length_scale) (\<lambda>length_scale_2.
       (let cst = param_map (\<lambda>l. l * alpha * 2) length_scale_2 in
     and_then (py_make_float_array cst dt False) (\<lambda>t_cst.
       (let tmp = Op2 OnnxDiv dists (Cst t_cst) None v in
     and_then (py_make_float_array (PyNum 1) dt False) (\<lambda>t_one.
       (let base = Op2 OnnxAdd tmp (Cst t_one) None v in
     and_then (py_make_float_array (PyNum (- alpha)) dt False) (\<lambda>t_alpha.
       (let K = Op2 OnnxPow base (Cst t_alpha) None v
        in Inr (Op1 OnnxIdentity K output_names v))))))))))"

text \<open>
  The constant-folded branch of the cosine kernel:
  \<open>Y / np.sqrt(np.sum(Y**2, axis=1, keepdims=True))\<close>. Summing along axis 1 needs
  rank two at least; a row of zero norm divides zero by zero, which leaves an array with
  entries that are not numbers.
\<close>

definition sum_squares :: "real list \<Rightarrow> real" where
  "sum_squares r = sum_list (map (\<lambda>x. x ^ 2) r)"

fun np_normalize_rows :: "tensor \<Rightarrow> error + tensor" where
  "np_normalize_rows (Vec xs) = Inl (AxisError ''axis 1 is out of bounds for array of dimension 1'')"
| "np_normalize_rows (Mat rows) =
     (if list_ex (\<lambda>r. r \<noteq> [] \<and> sum_squares r = 0) rows
      then Inr (Opaque (np_shape (Mat rows)))
      else Inr (Mat (map (\<lambda>r. map (\<lambda>x. x / sqrt (sum_squares r)) r) rows)))"
| "np_normalize_rows (Opaque s) =
     (if length s < 2 then Inl (AxisError ''axis 1 is out of bounds'') else Inr (Opaque s))"

text \<open>
  \<open>_convert_pairwise_kernel\<close>; its \<open>optim\<close> and its other keyword arguments are not
  read.
\<close>

definition convert_pairwise_kernel ::
  "onnx \<Rightarrow> onnx \<Rightarrow> string \<Rightarrow> np_dtype option \<Rightarrow> nat \<Rightarrow> string option \<Rightarrow> string list option
     \<Rightarrow> error + onnx" where
  "convert_pairwise_kernel X Y metric dt v optim output_names =
     (if metric = ''cosine'' then
        and_then
          (case Y of
             Cst a \<Rightarrow>
               and_then (np_normalize_rows (elems a)) (\<lambda>norm_y. Inr (Cst (astype (np_T norm_y) dt)))
           | _ \<Rightarrow>
               (let ny = Op1 (OnnxReduceL2_typed dt [1]) Y None v;
                    norm_y = Op2 OnnxDiv Y ny None v
                in Inr (Op1 (OnnxTranspose [1, 0]) norm_y None v)))
          (\<lambda>norm_try.
            (let nx = Op1 (OnnxReduceL2_typed dt [1]) X None v;
                 norm_x = Op2 OnnxDiv X nx None v;
                 K = Op2 OnnxMatMul norm_x norm_try None v
             in Inr (Op1 OnnxIdentity K output_names v)))
      else Inl (NotImplementedError ''Metric is not implemented.''))"

text \<open>
  The part the \<open>RBF\<close> and \<open>Matern\<close> branch shares: the scaled inputs and their
  pairwise distance (\<open>is_rbf\<close> is \<open>type(kernel) is RBF\<close>).
\<close>

definition scaled_dist ::
  "bool \<Rightarrow> param \<Rightarrow> onnx \<Rightarrow> onnx option \<Rightarrow> np_dtype option \<Rightarrow> string option \<Rightarrow> nat
     \<Rightarrow> error + onnx" where
  "scaled_dist is_rbf length_scale X x_train dt optim v =
     (let const = (case length_scale of
                     PyArr xs \<Rightarrow> if length xs > 0 then astype (Vec xs) dt else astype (Mat [xs]) dt
                   | PyNum l \<Rightarrow> np_array Float64 [l] dt);
          X_scaled = Op2 OnnxDiv X (Cst const) None v
      in (case x_train of
            None \<Rightarrow>
              Inr (Op1 (onnx_squareform_pdist (if is_rbf then sqeuclidean else euclidean) dt)
                     X_scaled None v)
          | Some xt \<Rightarrow>
              (let x_train_scaled = Op2 OnnxDiv xt (Cst const) None v
               in if optim = None then
                    Inr (Op2 (onnx_cdist (if is_rbf then sqeuclidean else euclidean) dt)
                           X_scaled x_train_scaled None v)
                  else if optim = Some ''cdist'' then
                    Inr (Op2 (OnnxCDist sqeuclidean) X_scaled x_train_scaled None v)
                  else Inl (ValueError ''Unknown optimization''))))"

text \<open>
  \<open>x_train.shape\<close>: an array has a shape; a graph input given by name, or a node, has no
  such attribute.
\<close>

fun shape_attr :: "onnx \<Rightarrow> error + nat list" where
  "shape_attr (Cst a) = Inr (np_shape (elems a))"
| "shape_attr _ = Inl (AttributeError ''shape'')"

fun convert_kernel ::
  "kernel \<Rightarrow> onnx \<Rightarrow> string list option \<Rightarrow> onnx option \<Rightarrow> np_dtype option \<Rightarrow> string option
     \<Rightarrow> nat option \<Rightarrow> error + onnx" where
  "convert_kernel (Sum k1 k2) X output_names x_train dt optim op_version =
     (case op_version of
        None \<Rightarrow> Inl (RuntimeError ''op_version must not be None.'')
      | Some v \<Rightarrow>
        (case convert_kernel k1 X None x_train dt optim op_version of
           Inl e \<Rightarrow> Inl e
         | Inr a \<Rightarrow>
           (case convert_kernel k2 X None x_train dt optim op_version of
              Inl e \<Rightarrow> Inl e
            | Inr b \<Rightarrow> Inr (Op2 OnnxAdd a b output_names v))))"
| "convert_kernel (Product k1 k2) X output_names x_train dt optim op_version =
     (case op_version of
        None \<Rightarrow> Inl (RuntimeError ''op_version must not be None.'')
      | Some v \<Rightarrow>
        (case convert_kernel k1 X None x_train dt optim op_version of
           Inl e \<Rightarrow> Inl e
         | Inr a \<Rightarrow>
           (case convert_kernel k2 X None x_train dt optim op_version of
              Inl e \<Rightarrow> Inl e
            | Inr b \<Rightarrow> Inr (Op2 OnnxMul a b output_names v))))"
| "convert_kernel (ConstantKernel constant_value) X output_names x_train dt optim op_version =
     (case op_version of
        None \<Rightarrow> Inl (RuntimeError ''op_version must not be None.'')
      | Some v \<Rightarrow>
        and_then (zero_vector_of_size X None 0 (Some 1) dt op_version) (\<lambda>onnx_zeros_x.
        and_then
          (case x_train of
             None \<Rightarrow> Inr onnx_zeros_x
           | Some xt \<Rightarrow> zero_vector_of_size xt None 0 (Some 1) dt op_version)
          (\<lambda>onnx_zeros_y.
            (let tr = Op1 (OnnxTranspose [1, 0]) onnx_zeros_y None v;
                 mat = Op2 OnnxMatMul onnx_zeros_x tr None v
             in Inr (Op2 OnnxAdd mat (Cst (np_array Float64 [constant_value] dt))
                       output_names v)))))"
| "convert_kernel (RBF length_scale) X output_names x_train dt optim op_version =
     (case op_version of
        None \<Rightarrow> Inl (RuntimeError ''op_version must not be None.'')
      | Some v \<Rightarrow>
        and_then (scaled_dist True length_scale X x_train dt optim v) (\<lambda>dist.
          (let K = Op2 OnnxMul dist (Cst (np_array Float64 [0.5] dt)) None v
           in Inr (Op1 OnnxExp (Op1 OnnxNeg K None v) output_names v))))"
| "convert_kernel (Matern length_scale nu) X output_names x_train dt optim op_version =
     (case op_version of
        None \<Rightarrow> Inl (RuntimeError ''op_version must not be None.'')
      | Some v \<Rightarrow>
        and_then (scaled_dist False length_scale X x_train dt optim v) (\<lambda>dist.
          if nu = Nu 0.5 then
            Inr (Op1 OnnxExp (Op1 OnnxNeg dist None v) output_names v)
          else if nu = Nu 1.5 then
            (let K = Op2 OnnxMul dist (Cst (np_array Float64 [sqrt 3] dt)) None v;
                 exp_k = Op1 OnnxExp (Op1 OnnxNeg K None v) None v;
                 k_1 = Op2 OnnxAdd K (Cst (np_array Int64 [1] dt)) None v
             in Inr (Op2 OnnxMul k_1 exp_k output_names v))
          else if nu = Nu 2.5 then
            (let K = Op2 OnnxMul dist (Cst (np_array Float64 [sqrt 5] dt)) None v;
                 exp_k = Op1 OnnxExp (Op1 OnnxNeg K None v) None v;
                 k_12 = Op2 OnnxAdd
                          (Op2 OnnxAdd K (Cst (np_array Int64 [1] (Some PyObject))) None v)
                          (Op2 OnnxDiv (Op2 OnnxMul K K None v) (Cst (np_array Int64 [3] dt)) None v)
                          None v
             in Inr (Op2 OnnxMul k_12 exp_k output_names v))
          else if nu = NuInf then
            Inr (Op1 OnnxExp
                   (Op1 OnnxNeg
                      (Op2 OnnxDiv (Op2 OnnxMul dist dist None v) (Cst (np_array Int64 [2] dt)) None v)
                      None v)
                   output_names v)
          else Inl (RuntimeError ''The converter is not implemented for Matern(nu=...)'')))"
| "convert_kernel (ExpSineSquared length_scale periodicity) X output_names x_train dt optim op_version =
     (case op_version of
        None \<Rightarrow> Inl (RuntimeError ''op_version must not be None.'')
      | Some v \<Rightarrow>
        (case length_scale of
           PyArr xs \<Rightarrow> Inl (NotImplementedError ''length_scale should be float'')
         | PyNum l \<Rightarrow>
             convert_exp_sine_squared X (case x_train of None \<Rightarrow> X | Some xt \<Rightarrow> xt)
               length_scale periodicity dt optim v output_names))"
| "convert_kernel (DotProduct sigma_0) X output_names x_train dt optim op_version =
     (case op_version of
        None \<Rightarrow> Inl (RuntimeError ''op_version must not be None.'')
      | Some v \<Rightarrow>
        (case sigma_0 of
           PyArr xs \<Rightarrow> Inl (NotImplementedError ''sigma_0 should be float'')
         | PyNum s \<Rightarrow>
            (case x_train of
               None \<Rightarrow> convert_dot_product X X sigma_0 dt v output_names
             | Some xt \<Rightarrow>
                 and_then (shape_attr xt) (\<lambda>shape.
                   if length shape \<noteq> 2 then
                     Inl (NotImplementedError
                            ''Only DotProduct for two dimension train set is implemented.'')
                   else convert_dot_product X xt sigma_0 dt v output_names))))"
| "convert_kernel (RationalQuadratic length_scale alpha) X output_names x_train dt optim op_version =
     (case op_version of
        None \<Rightarrow> Inl (RuntimeError ''op_version must not be None.'')
      | Some v \<Rightarrow>
        (case x_train of
           None \<Rightarrow> convert_rational_quadratic X X length_scale alpha dt optim v output_names
         | Some xt \<Rightarrow> convert_rational_quadratic X xt length_scale alpha dt optim v output_names))"
| "convert_kernel (PairwiseKernel metric) X output_names x_train dt optim op_version =
     (case op_version of
        None \<Rightarrow> Inl (RuntimeError ''op_version must not be None.'')
      | Some v \<Rightarrow>
        (case x_train of
           None \<Rightarrow> convert_pairwise_kernel X X metric dt v optim output_names
         | Some xt \<Rightarrow> convert_pairwise_kernel X xt metric dt v optim output_names))"
| "convert_kernel (WhiteKernel noise_level) X output_names x_train dt optim op_version =
     (case op_version of
        None \<Rightarrow> Inl (RuntimeError ''op_version must not be None.'')
      | Some v \<Rightarrow>
        and_then (zero_vector_of_size X None 0 (Some 1) dt op_version) (\<lambda>onnx_zeros_x.
        and_then
          (case x_train of
             None \<Rightarrow> Inr onnx_zeros_x
           | Some xt \<Rightarrow> zero_vector_of_size xt None 0 (Some 1) dt op_version)
          (\<lambda>onnx_zeros_y.
            (let tr = Op1 (OnnxTranspose [1, 0]) onnx_zeros_y None v;
                 mat = Op2 OnnxMatMul onnx_zeros_x tr None v
             in if x_train \<noteq> None then Inr (Op1 OnnxIdentity mat output_names v)
                else Inr (Op2 OnnxMul (Op1 OnnxEyeLike mat None v)
                            (Op1 OnnxIdentity (Cst (np_array Float64 [noise_level] dt)) None v)
                            output_names v)))))"
| "convert_kernel (OtherKernel name) X output_names x_train dt optim op_version =
     (case op_version of
        None \<Rightarrow> Inl (RuntimeError ''op_version must not be None.'')
      | Some v \<Rightarrow> Inl (RuntimeError ''Unable to convert __call__ method for class''))"


section \<open>The value of a graph\<close>

text \<open>
  Modelled from the spec: the elementary operators of \<open>algebra.onnx_ops\<close>, the fused
  distance operator of \<open>algebra.custom_ops\<close> and the two distance builders of
  \<open>algebra.complex_functions\<close> are not part of the converter's file. Section 6 of the
  specification lists them as required primitives (elementwise arithmetic with
  broadcasting, matrix product, transposition, reductions along an axis, shape query,
  gather, concatenation, a constant tensor of a given shape, an identity-like matrix) and
  section 4.4 says what the distance computes under either strategy: the matrix of
  Euclidean or squared Euclidean distances between the rows of the two point sets.

  Values are computed over the reals: no rounding, and an operation whose result is not
  a real number (a division by zero, a power that is not defined) has no value. An
  operator has a value on floating tensors of one element type only; shapes are int64
  vectors.
\<close>

definition is_float :: "np_dtype \<Rightarrow> bool" where
  "is_float d = (d = Float32 \<or> d = Float64)"

definition add_real :: "real \<Rightarrow> real \<Rightarrow> real option" where
  "add_real x y = Some (x + y)"

definition mul_real :: "real \<Rightarrow> real \<Rightarrow> real option" where
  "mul_real x y = Some (x * y)"

definition div_real :: "real \<Rightarrow> real \<Rightarrow> real option" where
  "div_real x y = (if y = 0 then None else Some (x / y))"

definition pow_real :: "real \<Rightarrow> real \<Rightarrow> real option" where
  "pow_real x y =
     (if 0 < x then Some (x powr y)
      else if x = 0 then (if y = 0 then Some 1 else if 0 < y then Some 0 else None)
      else if y = of_int \<lfloor>y\<rfloor> then Some (x powi \<lfloor>y\<rfloor>)
      else None)"

text \<open>Broadcasting of two operands of rank one or two, dimension by dimension.\<close>

definition bc_list :: "(real \<Rightarrow> real \<Rightarrow> real option) \<Rightarrow> real list \<Rightarrow> real list \<Rightarrow> real list option" where
  "bc_list f xs ys =
     (if length xs = length ys then those (map2 f xs ys)
      else if length xs = 1 then those (map (f (hd xs)) ys)
      else if length ys = 1 then those (map (\<lambda>x. f x (hd ys)) xs)
      else None)"

definition bc_rows ::
  "(real \<Rightarrow> real \<Rightarrow> real option) \<Rightarrow> real list list \<Rightarrow> real list list \<Rightarrow> real list list option" where
  "bc_rows f A B =
     (if length A = length B then those (map2 (bc_list f) A B)
      else if length A = 1 then those (map (bc_list f (hd A)) B)
      else if length B = 1 then those (map (\<lambda>a. bc_list f a (hd B)) A)
      else None)"

fun bc_tensor :: "(real \<Rightarrow> real \<Rightarrow> real option) \<Rightarrow> tensor \<Rightarrow> tensor \<Rightarrow> tensor option" where
  "bc_tensor f (Vec xs) (Vec ys) = map_option Vec (bc_list f xs ys)"
| "bc_tensor f (Vec xs) (Mat B) = map_option Mat (bc_rows f [xs] B)"
| "bc_tensor f (Mat A) (Vec ys) = map_option Mat (bc_rows f A [ys])"
| "bc_tensor f (Mat A) (Mat B) = map_option Mat (bc_rows f A B)"
| "bc_tensor f _ _ = None"

definition elementwise2 :: "(real \<Rightarrow> real \<Rightarrow> real option) \<Rightarrow> ndarray \<Rightarrow> ndarray \<Rightarrow> ndarray option" where
  "elementwise2 f a b =
     (if dtype a = dtype b \<and> is_float (dtype a)
      then map_option (NdArray (dtype a)) (bc_tensor f (elems a) (elems b))
      else None)"

fun map_tensor :: "(real \<Rightarrow> real) \<Rightarrow> tensor \<Rightarrow> tensor option" where
  "map_tensor f (Vec xs) = Some (Vec (map f xs))"
| "map_tensor f (Mat rows) = Some (Mat (map (map f) rows))"
| "map_tensor f (Opaque s) = None"

definition elementwise1 :: "(real \<Rightarrow> real) \<Rightarrow> ndarray \<Rightarrow> ndarray option" where
  "elementwise1 f a =
     (if is_float (dtype a) then map_option (NdArray (dtype a)) (map_tensor f (elems a))
      else None)"

definition dot :: "real list \<Rightarrow> real list \<Rightarrow> real" where
  "dot xs ys = sum_list (map2 (*) xs ys)"

definition matmul :: "real list list \<Rightarrow> real list list \<Rightarrow> real list list option" where
  "matmul A B =
     (if list_all (\<lambda>r. length r = length B) A \<and> rectangular B
      then Some (map (\<lambda>a. map (dot a) (transpose_rows B)) A)
      else None)"

definition eye :: "nat \<Rightarrow> nat \<Rightarrow> real list list" where
  "eye n m = map (\<lambda>i. map (\<lambda>j. if i = j then 1 else 0) [0..<m]) [0..<n]"

definition pair_dist :: "metric \<Rightarrow> real list \<Rightarrow> real list \<Rightarrow> real" where
  "pair_dist m a b =
     (let s = sum_list (map2 (\<lambda>x y. (x - y) ^ 2) a b)
      in case m of sqeuclidean \<Rightarrow> s | euclidean \<Rightarrow> sqrt s)"

text \<open>
  Modelled from the spec: what \<open>onnx_cdist\<close>, \<open>onnx_squareform_pdist\<close> and the fused
  \<open>OnnxCDist\<close> operator compute is not in the converter's file. By section 4.4 both
  strategies give the matrix of pairwise distances, Euclidean or squared Euclidean,
  between the rows of two point sets with one number of features; the single-set form is
  the distance of a set to itself.
\<close>

definition cdist :: "metric \<Rightarrow> ndarray \<Rightarrow> ndarray \<Rightarrow> ndarray option" where
  "cdist m a b =
     (case (elems a, elems b) of
        (Mat A, Mat B) \<Rightarrow>
          if dtype a = dtype b \<and> is_float (dtype a)
             \<and> list_all (\<lambda>r. length r = ncols A) (A @ B)
          then Some (NdArray (dtype a) (Mat (map (\<lambda>x. map (pair_dist m x) B) A)))
          else None
      | _ \<Rightarrow> None)"

fun fill :: "nat list \<Rightarrow> real \<Rightarrow> tensor" where
  "fill [n] c = Vec (replicate n c)"
| "fill [n, m] c = matrix m (replicate n (replicate m c))"
| "fill s c = Opaque s"

definition gather_index :: "nat \<Rightarrow> real \<Rightarrow> nat option" where
  "gather_index n i =
     (let k = \<lfloor>i\<rfloor>; j = (if k < 0 then k + int n else k)
      in if 0 \<le> j \<and> j < int n then Some (nat j) else None)"

text \<open>
  Modelled from the spec: the value of each operator of section 6 on operands of rank one
  or two, with the attributes the converter gives it: reductions and \<open>Squeeze\<close> along
  axis 1 (a reduction keeps the axis), transposition of a matrix, \<open>Gather\<close> and
  \<open>Concat\<close> along axis 0 of vectors. Other uses have no value in this model.
\<close>

fun eval_unop :: "unop \<Rightarrow> ndarray \<Rightarrow> ndarray option" where
  "eval_unop OnnxExp a = elementwise1 exp a"
| "eval_unop OnnxNeg a = elementwise1 uminus a"
| "eval_unop OnnxSin a = elementwise1 sin a"
| "eval_unop OnnxIdentity a = Some a"
| "eval_unop OnnxShape a = Some (NdArray Int64 (Vec (map real (np_shape (elems a)))))"
| "eval_unop OnnxEyeLike a =
     (case elems a of
        Mat rows \<Rightarrow> Some (NdArray (dtype a) (Mat (eye (length rows) (ncols rows))))
      | _ \<Rightarrow> None)"
| "eval_unop (OnnxTranspose perm) a =
     (case elems a of
        Mat rows \<Rightarrow>
          if perm = [1, 0]
          then Some (NdArray (dtype a) (matrix (length rows) (transpose_rows rows))) else None
      | _ \<Rightarrow> None)"
| "eval_unop (OnnxSqueezeApi11 axes) a =
     (case elems a of
        Mat rows \<Rightarrow>
          if axes = [1] \<and> list_all (\<lambda>r. length r = 1) rows
          then Some (NdArray (dtype a) (Vec (map hd rows))) else None
      | _ \<Rightarrow> None)"
| "eval_unop (OnnxReduceSumSquareApi18 axes) a =
     (case elems a of
        Mat rows \<Rightarrow>
          if axes = [1] \<and> is_float (dtype a)
          then Some (NdArray (dtype a) (Mat (map (\<lambda>r. [sum_squares r]) rows))) else None
      | _ \<Rightarrow> None)"
| "eval_unop (OnnxReduceL2_typed dt axes) a =
     (case elems a of
        Mat rows \<Rightarrow>
          if axes = [1] \<and> is_float (dtype a)
          then Some (NdArray (dtype a) (Mat (map (\<lambda>r. [sqrt (sum_squares r)]) rows))) else None
      | _ \<Rightarrow> None)"
| "eval_unop (OnnxConstantOfShape val) a =
     (case (elems a, elems val) of
        (Vec dims, Vec [c]) \<Rightarrow>
          if dtype a = Int64 \<and> list_all (\<lambda>d. 0 \<le> d) dims
          then Some (NdArray (dtype val) (fill (map (\<lambda>d. nat \<lfloor>d\<rfloor>) dims) c)) else None
      | _ \<Rightarrow> None)"
| "eval_unop (onnx_squareform_pdist m dt) a = cdist m a a"

fun eval_binop :: "binop \<Rightarrow> ndarray \<Rightarrow> ndarray \<Rightarrow> ndarray option" where
  "eval_binop OnnxAdd a b = elementwise2 add_real a b"
| "eval_binop OnnxMul a b = elementwise2 mul_real a b"
| "eval_binop OnnxDiv a b = elementwise2 div_real a b"
| "eval_binop OnnxPow a b = elementwise2 pow_real a b"
| "eval_binop OnnxMatMul a b =
     (case (elems a, elems b) of
        (Mat A, Mat B) \<Rightarrow>
          if dtype a = dtype b \<and> is_float (dtype a)
          then map_option (\<lambda>C. NdArray (dtype a) (Mat C)) (matmul A B) else None
      | _ \<Rightarrow> None)"
| "eval_binop OnnxGather a idx =
     (case (elems a, elems idx) of
        (Vec xs, Vec is) \<Rightarrow>
          if dtype idx = Int64
          then map_option (\<lambda>js. NdArray (dtype a) (Vec (map (\<lambda>j. xs ! j) js)))
                 (those (map (gather_index (length xs)) is))
          else None
      | _ \<Rightarrow> None)"
| "eval_binop (OnnxConcat axis) a b =
     (case (elems a, elems b) of
        (Vec xs, Vec ys) \<Rightarrow>
          if axis = 0 \<and> dtype a = dtype b then Some (NdArray (dtype a) (Vec (xs @ ys))) else None
      | _ \<Rightarrow> None)"
| "eval_binop (OnnxCDist m) a b = cdist m a b"
| "eval_binop (onnx_cdist m dt) a b = cdist m a b"

text \<open>The value of a graph, given the values of its named inputs.\<close>

fun eval :: "(string \<Rightarrow> ndarray option) \<Rightarrow> onnx \<Rightarrow> ndarray option" where
  "eval env (Var x) = env x"
| "eval env (Cst a) = Some a"
| "eval env (Op1 f g names v) =
     (case eval env g of None \<Rightarrow> None | Some a \<Rightarrow> eval_unop f a)"
| "eval env (Op2 f g h names v) =
     (case eval env g of
        None \<Rightarrow> None
      | Some a \<Rightarrow> (case eval env h of None \<Rightarrow> None | Some b \<Rightarrow> eval_binop f a b))"

text \<open>The value of what a compilation returns; a compilation that raised has none.\<close>

definition run :: "(string \<Rightarrow> ndarray option) \<Rightarrow> error + onnx \<Rightarrow> ndarray option" where
  "run env r = (case r of Inl e \<Rightarrow> None | Inr g \<Rightarrow> eval env g)"

text \<open>The main diagonal of a matrix, as a vector.\<close>

definition diagonal :: "ndarray \<Rightarrow> ndarray" where
  "diagonal a =
     (case elems a of
        Mat rows \<Rightarrow> NdArray (dtype a) (Vec (map (\<lambda>i. rows ! i ! i) [0..<min (length rows) (ncols rows)]))
      | _ \<Rightarrow> a)"

text \<open>The arrays a graph holds as constants, left to right.\<close>

fun constants :: "onnx \<Rightarrow> ndarray list" where
  "constants (Var x) = []"
| "constants (Cst a) = [a]"
| "constants (Op1 f g names v) = constants g"
| "constants (Op2 f g h names v) = constants g @ constants h"


text \<open>The constants of what a compilation returns.\<close>

definition compiled_constants :: "error + onnx \<Rightarrow> ndarray list" where
  "compiled_constants r = (case r of Inl e \<Rightarrow> [] | Inr g \<Rightarrow> constants g)"

section \<open>Where the optimisation flag is read\<close>

text \<open>
  \<open>reads_optim has_train k\<close>: some leaf of \<open>k\<close> reaches a choice of distance strategy,
  given whether a second point set is supplied. \<open>RBF\<close> and \<open>Matern\<close> choose one only
  for two point sets, \<open>RationalQuadratic\<close> always, \<open>ExpSineSquared\<close> once its
  length scale has passed the scalar test. \<open>composite\<close> is a sum or a product.
\<close>

fun reads_optim :: "bool \<Rightarrow> kernel \<Rightarrow> bool" where
  "reads_optim has_train (Sum k1 k2) = (reads_optim has_train k1 \<or> reads_optim has_train k2)"
| "reads_optim has_train (Product k1 k2) = (reads_optim has_train k1 \<or> reads_optim has_train k2)"
| "reads_optim has_train (RBF length_scale) = has_train"
| "reads_optim has_train (Matern length_scale nu) = has_train"
| "reads_optim has_train (ExpSineSquared length_scale periodicity) =
     (case length_scale of PyNum l \<Rightarrow> True | PyArr xs \<Rightarrow> False)"
| "reads_optim has_train (RationalQuadratic length_scale alpha) = True"
| "reads_optim has_train _ = False"

fun composite :: "kernel \<Rightarrow> bool" where
  "composite (Sum k1 k2) = True"
| "composite (Product k1 k2) = True"
| "composite _ = False"

section \<open>Unfolding the converter and the evaluator\<close>

lemma replicate_numeral: "replicate (numeral k) x = x # replicate (pred_numeral k) x"
  by (simp add: numeral_eq_Suc)

lemmas compile_defs =
  and_then_def zero_vector_of_size_def OnnxConstantOfShape_node_def np_array_def from_array_def
  astype_def matrix_def float_overflow_def
  py_make_float_array_def scaled_dist_def convert_dot_product_def
  convert_rational_quadratic_def convert_exp_sine_squared_def convert_pairwise_kernel_def Let_def

lemmas eval_defs =
  run_def elementwise2_def elementwise1_def bc_list_def bc_rows_def is_float_def ncols_def
  gather_index_def add_real_def mul_real_def div_real_def matmul_def rectangular_def
  transpose_rows_def dot_def cdist_def pair_dist_def eye_def sum_squares_def diagonal_def
  replicate_numeral upt_conv_Cons

lemma those_map_Some: "those (map (\<lambda>x. Some (f x)) xs) = Some (map f xs)"
  by (induction xs) simp_all

lemma bc_list_scalar: "bc_list (\<lambda>x y. Some (g x y)) xs [c] = Some (map (\<lambda>x. g x c) xs)"
proof (cases "length xs = 1")
  case True
  then obtain x where "xs = [x]" by (cases xs) auto
  then show ?thesis by (simp add: bc_list_def)
next
  case False
  then show ?thesis by (simp add: bc_list_def those_map_Some)
qed

lemma bc_list_same:
  "length xs = length ys \<Longrightarrow> bc_list (\<lambda>x y. Some (g x y)) xs ys = Some (map2 g xs ys)"
  by (induction xs ys rule: list_induct2) (simp_all add: bc_list_def)

lemma bc_rows_same:
  "list_all2 (\<lambda>a b. length a = length b) A B \<Longrightarrow>
     bc_rows (\<lambda>x y. Some (g x y)) A B = Some (map2 (map2 g) A B)"
proof (induction A B rule: list_all2_induct)
  case Nil
  then show ?case by (simp add: bc_rows_def)
next
  case (Cons a A b B)
  then have "length A = length B" by (simp add: list_all2_lengthD)
  with Cons show ?case by (simp add: bc_rows_def bc_list_same)
qed

lemma add_real_fun: "add_real = (\<lambda>x y. Some (x + y))"
  by (intro ext) (simp add: add_real_def)

lemma mul_real_fun: "mul_real = (\<lambda>x y. Some (x * y))"
  by (intro ext) (simp add: mul_real_def)

lemma run_Op2:
  "run env (Inr (Op2 f g h names v)) =
     (case eval env g of None \<Rightarrow> None
      | Some a \<Rightarrow> (case eval env h of None \<Rightarrow> None | Some b \<Rightarrow> eval_binop f a b))"
  by (simp add: run_def)

lemma elementwise2_same_mat:
  assumes "is_float d" and "list_all2 (\<lambda>a b. length a = length b) A B"
  shows "elementwise2 (\<lambda>x y. Some (g x y)) (NdArray d (Mat A)) (NdArray d (Mat B))
           = Some (NdArray d (Mat (map2 (map2 g) A B)))"
  using assms by (simp add: elementwise2_def bc_rows_same)

lemma elementwise2_same_vec:
  assumes "is_float d" and "length a = length b"
  shows "elementwise2 (\<lambda>x y. Some (g x y)) (NdArray d (Vec a)) (NdArray d (Vec b))
           = Some (NdArray d (Vec (map2 g a b)))"
  using assms by (simp add: elementwise2_def bc_list_same)

lemma zero_vector_run:
  assumes "eval env X = Some (NdArray dx t)" and "np_shape t = [n, m]" and "9 \<le> v"
      and "dt \<noteq> Some PyObject"
  shows "run env (zero_vector_of_size X output_names axis (Some keepdims) dt (Some v))
           = Some (NdArray (case dt of None \<Rightarrow> Int64 | Some d \<Rightarrow> d)
                (if keepdims = 0 then Vec (replicate (if axis = 0 then n else m) 0)
                 else if axis = 0 then matrix 1 (replicate n [0])
                 else Mat [replicate m 0]))"
  using assms
  by (cases dt)
     (simp_all add: zero_vector_of_size_def OnnxConstantOfShape_node_def run_def np_array_def
        from_array_def and_then_def gather_index_def matrix_def Let_def)

lemma np_shape_column: "np_shape (matrix 1 (replicate n [c])) = [n, 1]"
  by (cases n) (simp_all add: matrix_def ncols_def)

section \<open>A missing operator-set version\<close>

text \<open>
  Claim C7. Whatever the kernel expression and the inputs, \<open>convert_kernel\<close> and
  \<open>convert_kernel_diag\<close> called with \<open>op_version=None\<close> raise the runtime error
  "op_version must not be None." and return no graph.
\<close>

theorem op_version_none_fails:
  "convert_kernel k X output_names x_train dt optim None
     = Inl (RuntimeError ''op_version must not be None.'')
   \<and> convert_kernel_diag k X output_names dt optim None
     = Inl (RuntimeError ''op_version must not be None.'')"
  by (cases k) simp_all

section \<open>The diagonal and the optimisation flag\<close>

text \<open>
  Claim C9. The graph \<open>convert_kernel_diag\<close> returns (or the error it raises) is the
  same for any two values of \<open>optim\<close>, all other arguments being equal: the flag is
  passed down the recursion and never read.
\<close>

theorem convert_kernel_diag_ignores_optim:
  "convert_kernel_diag k X output_names dt optim1 op_version
     = convert_kernel_diag k X output_names dt optim2 op_version"
proof (cases op_version)
  case None
  then show ?thesis by (cases k) simp_all
next
  case (Some v)
  have "convert_kernel_diag k X output_names dt optim1 (Some v)
          = convert_kernel_diag k X output_names dt optim2 (Some v)"
    by (induction k arbitrary: output_names) (simp_all cong: sum.case_cong)
  with Some show ?thesis by simp
qed


section \<open>The zero builder\<close>

text \<open>
  Claim C4, as stated, asks for shape \<open>[count, 1]\<close> on either axis when the second
  dimension is kept. With \<open>axis=1\<close> the builder concatenates the constant 1 before the
  column count: on a 2 by 3 input the result has shape \<open>[1, 3]\<close>, not \<open>[3, 1]\<close>.
\<close>

theorem zeros_axis1_counterexample:
  "map_option (\<lambda>a. np_shape (elems a))
     (run Map.empty
        (zero_vector_of_size (Cst (NdArray Float32 (Mat [[1, 2, 3], [4, 5, 6]])))
           None 1 (Some 1) (Some Float32) (Some 13)))
   = Some [1, 3]"
  by (simp add: compile_defs eval_defs)

text \<open>
  Claim C4, amended. Let the value of the input be an array of rank two, with \<open>n\<close> rows
  and \<open>m\<close> columns (\<open>n\<close> may be zero), and let \<open>_zero_vector_of_size\<close> be called with
  an explicit \<open>keepdims\<close>, an \<open>op_version\<close> of at least 9, the first to have
  \<open>ConstantOfShape\<close>, and a numeric element type (int64 when left out). Then it
  returns a graph whose value is zero-filled, of that element type, and: a flat vector of \<open>n\<close> zeros (\<open>axis=0\<close>) or \<open>m\<close> zeros
  (any other axis) when \<open>keepdims\<close> is 0; a column of shape \<open>[n, 1]\<close> when
  \<open>keepdims\<close> is set and \<open>axis=0\<close>; a row of shape \<open>[1, m]\<close> when \<open>keepdims\<close> is set
  and the axis is not 0.
\<close>

theorem zero_vector_of_size_value:
  assumes "eval env X = Some (NdArray dx t)" and "proper t" and "np_shape t = [n, m]"
      and "9 \<le> v" and "dt \<noteq> Some PyObject"
  shows "run env (zero_vector_of_size X output_names axis (Some keepdims) dt (Some v))
           = Some (NdArray (case dt of None \<Rightarrow> Int64 | Some d \<Rightarrow> d)
                (if keepdims = 0 then Vec (replicate (if axis = 0 then n else m) 0)
                 else if axis = 0 then matrix 1 (replicate n [0])
                 else Mat [replicate m 0]))
       \<and> map_option (\<lambda>a. np_shape (elems a))
             (run env (zero_vector_of_size X output_names axis (Some keepdims) dt (Some v)))
           = Some (if keepdims = 0 then [if axis = 0 then n else m]
                   else if axis = 0 then [n, 1] else [1, m])"
  using zero_vector_run[OF assms(1,3,4,5), of output_names axis keepdims]
        np_shape_column[of n 0]
  by (simp add: ncols_def)

theorem zero_vector_of_size_value_witness:
  "run Map.empty
     (zero_vector_of_size (Cst (NdArray Float32 (Mat [[1, 2, 3], [4, 5, 6]])))
        None 0 (Some 1) (Some Float32) (Some 13))
     = Some (NdArray Float32 (Mat [[0], [0]]))
   \<and> run Map.empty
     (zero_vector_of_size (Cst (NdArray Float32 (Mat [[1, 2, 3], [4, 5, 6]])))
        None 1 (Some 0) (Some Float32) (Some 13))
     = Some (NdArray Float32 (Vec [0, 0, 0]))
   \<and> run Map.empty
     (zero_vector_of_size (Cst (NdArray Float32 (Opaque [0, 3])))
        None 0 (Some 1) (Some Float32) (Some 9))
     = Some (NdArray Float32 (Opaque [0, 1]))"
  using zero_vector_of_size_value[of Map.empty "Cst (NdArray Float32 (Mat [[1, 2, 3], [4, 5, 6]]))"
          Float32 "Mat [[1, 2, 3], [4, 5, 6]]" 2 3 13 "Some Float32" None 0 1]
        zero_vector_of_size_value[of Map.empty "Cst (NdArray Float32 (Mat [[1, 2, 3], [4, 5, 6]]))"
          Float32 "Mat [[1, 2, 3], [4, 5, 6]]" 2 3 13 "Some Float32" None 1 0]
        zero_vector_of_size_value[of Map.empty "Cst (NdArray Float32 (Opaque [0, 3]))"
          Float32 "Opaque [0, 3]" 0 3 9 "Some Float32" None 0 1]
  by (simp add: ncols_def rectangular_def matrix_def replicate_numeral)

section \<open>Validation of the optimisation flag\<close>

text \<open>
  Claim C5, as stated, has every compilation reject an unknown \<open>optim\<close>, also without
  a second point set. An \<open>RBF\<close> kernel compiled without \<open>x_train\<close> and with the
  unknown value \<open>fast\<close> returns a graph.
\<close>

theorem unchecked_optim_counterexample:
  "\<not> isl (convert_kernel (RBF (PyNum 1)) (Var ''X'') None None (Some Float32) (Some ''fast'')
            (Some 13))"
  by (simp add: compile_defs)

lemma unread_optim:
  "\<not> reads_optim (x_train \<noteq> None) k \<Longrightarrow>
     convert_kernel k X output_names x_train dt optim (Some v)
       = convert_kernel k X output_names x_train dt None (Some v)"
proof (induction k arbitrary: output_names)
  case (RBF x)
  then show ?case by (cases x_train) (simp_all add: scaled_dist_def)
next
  case (Matern x1a x2a)
  then show ?case by (cases x_train) (simp_all add: scaled_dist_def)
next
  case (ExpSineSquared x1a x2a)
  then show ?case by (cases x1a) simp_all
next
  case (PairwiseKernel x)
  then show ?case by (cases x_train) (simp_all add: convert_pairwise_kernel_def)
qed (simp_all cong: sum.case_cong)

lemma read_optim_leaf:
  assumes "reads_optim (x_train \<noteq> None) k" and "\<not> composite k"
      and "optim \<noteq> None" and "optim \<noteq> Some ''cdist''"
  shows "convert_kernel k X output_names x_train dt optim (Some v)
           = Inl (ValueError ''Unknown optimization'')"
proof -
  obtain s where s: "optim = Some s" "s \<noteq> ''cdist''"
    using assms(3,4) by (cases optim) auto
  show ?thesis
  proof (cases k)
    case (RBF x)
    with assms(1) s show ?thesis
      by (cases x_train) (simp_all add: scaled_dist_def and_then_def Let_def)
  next
    case (Matern x1a x2a)
    with assms(1) s show ?thesis
      by (cases x_train) (simp_all add: scaled_dist_def and_then_def Let_def)
  next
    case (ExpSineSquared x1a x2a)
    with assms(1) s show ?thesis
      by (cases x1a) (simp_all add: convert_exp_sine_squared_def and_then_def)
  next
    case (RationalQuadratic x1a x2a)
    with s show ?thesis
      by (cases x_train) (simp_all add: convert_rational_quadratic_def and_then_def)
  qed (use assms(1,2) in simp_all)
qed

lemma read_optim_fails:
  assumes "optim \<noteq> None" and "optim \<noteq> Some ''cdist''"
  shows "reads_optim (x_train \<noteq> None) k \<Longrightarrow>
           isl (convert_kernel k X output_names x_train dt optim (Some v))"
proof (induction k arbitrary: output_names)
  case (Sum k1 k2)
  show ?case
  proof (cases "convert_kernel k1 X None x_train dt optim (Some v)")
    case (Inl e)
    then show ?thesis by simp
  next
    case g1: (Inr g1)
    then have "\<not> reads_optim (x_train \<noteq> None) k1"
      using Sum.IH(1)[of None] by auto
    then have "reads_optim (x_train \<noteq> None) k2"
      using Sum.prems by simp
    then have "isl (convert_kernel k2 X None x_train dt optim (Some v))"
      by (rule Sum.IH(2))
    then show ?thesis using g1 by (auto split: sum.splits)
  qed
next
  case (Product k1 k2)
  show ?case
  proof (cases "convert_kernel k1 X None x_train dt optim (Some v)")
    case (Inl e)
    then show ?thesis by simp
  next
    case g1: (Inr g1)
    then have "\<not> reads_optim (x_train \<noteq> None) k1"
      using Product.IH(1)[of None] by auto
    then have "reads_optim (x_train \<noteq> None) k2"
      using Product.prems by simp
    then have "isl (convert_kernel k2 X None x_train dt optim (Some v))"
      by (rule Product.IH(2))
    then show ?thesis using g1 by (auto split: sum.splits)
  qed
next
  case (RBF x)
  then show ?case using read_optim_leaf[OF _ _ assms, of x_train "RBF x"] by simp
next
  case (Matern x1a x2a)
  then show ?case using read_optim_leaf[OF _ _ assms, of x_train "Matern x1a x2a"] by simp
next
  case (RationalQuadratic x1a x2a)
  then show ?case
    using read_optim_leaf[OF _ _ assms, of x_train "RationalQuadratic x1a x2a"] by simp
next
  case (ExpSineSquared x1a x2a)
  then show ?case
    using read_optim_leaf[OF _ _ assms, of x_train "ExpSineSquared x1a x2a"] by simp
qed simp_all

text \<open>
  Claim C5, amended. With an \<open>op_version\<close> and an \<open>optim\<close> that is neither absent nor
  \<open>cdist\<close>: a kernel expression with a leaf that reaches the choice of distance strategy
  does not compile; when that expression is itself such a leaf the error is the value
  error "Unknown optimization"; and an expression with no such leaf compiles exactly as
  it does with \<open>optim\<close> absent, the flag being never read.
\<close>

theorem optim_validated_where_read:
  assumes "optim \<noteq> None" and "optim \<noteq> Some ''cdist''"
  shows "(reads_optim (x_train \<noteq> None) k \<longrightarrow>
            isl (convert_kernel k X output_names x_train dt optim (Some v)))
       \<and> (reads_optim (x_train \<noteq> None) k \<and> \<not> composite k \<longrightarrow>
            convert_kernel k X output_names x_train dt optim (Some v)
              = Inl (ValueError ''Unknown optimization''))
       \<and> (\<not> reads_optim (x_train \<noteq> None) k \<longrightarrow>
            convert_kernel k X output_names x_train dt optim (Some v)
              = convert_kernel k X output_names x_train dt None (Some v))"
proof (intro conjI impI)
  assume "reads_optim (x_train \<noteq> None) k"
  then show "isl (convert_kernel k X output_names x_train dt optim (Some v))"
    by (rule read_optim_fails[OF assms])
next
  assume "reads_optim (x_train \<noteq> None) k \<and> \<not> composite k"
  then show "convert_kernel k X output_names x_train dt optim (Some v)
               = Inl (ValueError ''Unknown optimization'')"
    using read_optim_leaf[OF _ _ assms] by blast
next
  assume "\<not> reads_optim (x_train \<noteq> None) k"
  then show "convert_kernel k X output_names x_train dt optim (Some v)
               = convert_kernel k X output_names x_train dt None (Some v)"
    by (rule unread_optim)
qed

theorem optim_validated_where_read_witness:
  "convert_kernel (RBF (PyNum 1)) (Var ''X'') None (Some (Var ''Y'')) (Some Float32)
      (Some ''fast'') (Some 13)
     = Inl (ValueError ''Unknown optimization'')
   \<and> isl (convert_kernel (Sum (ConstantKernel 2) (RationalQuadratic (PyNum 1) 1)) (Var ''X'') None
            None (Some Float32) (Some ''fast'') (Some 13))
   \<and> convert_kernel (WhiteKernel 1) (Var ''X'') None None (Some Float32) (Some ''fast'') (Some 13)
     = convert_kernel (WhiteKernel 1) (Var ''X'') None None (Some Float32) None (Some 13)"
  using optim_validated_where_read[where optim = "Some ''fast''" and x_train = "Some (Var ''Y'')"
          and k = "RBF (PyNum 1)" and X = "Var ''X''" and output_names = None
          and dt = "Some Float32" and v = 13]
        optim_validated_where_read[where optim = "Some ''fast''" and x_train = None
          and k = "Sum (ConstantKernel 2) (RationalQuadratic (PyNum 1) 1)" and X = "Var ''X''"
          and output_names = None and dt = "Some Float32" and v = 13]
        optim_validated_where_read[where optim = "Some ''fast''" and x_train = None
          and k = "WhiteKernel 1" and X = "Var ''X''" and output_names = None
          and dt = "Some Float32" and v = 13]
  by (simp del: convert_kernel.simps)

section \<open>The dot product and the rank of its operands\<close>

text \<open>
  Claim C6, as stated, has the compilation of a \<open>DotProduct\<close> kernel fail whenever
  either operand is not two-dimensional. With a one-dimensional array as \<open>X\<close> and a
  two-dimensional training set the compilation returns a graph.
\<close>

theorem dot_product_rank_counterexample:
  "\<not> isl (convert_kernel (DotProduct (PyNum 1)) (Cst (NdArray Float32 (Vec [1, 2]))) None
            (Some (Cst (NdArray Float32 (Mat [[1, 2]])))) (Some Float32) None (Some 13))"
  by (simp add: compile_defs ncols_def)

text \<open>
  Claim C6, amended. For a \<open>DotProduct\<close> kernel with a scalar \<open>sigma_0\<close>, compiled with
  an \<open>op_version\<close>: when the training set is an array whose rank is not 2 the
  compilation raises "Only DotProduct for two dimension train set is implemented." and
  returns no graph, whatever \<open>X\<close> is. The rank of \<open>X\<close> is not tested: with a floating
  precision, a \<open>sigma_0\<close> whose square is a finite float, an \<open>op_version\<close> of at
  least 9, and either no training set or a two-dimensional one, the compilation returns a
  graph for every \<open>X\<close>.
\<close>

theorem dot_product_train_rank_checked:
  "(length (np_shape (elems a)) \<noteq> 2 \<longrightarrow>
      convert_kernel (DotProduct (PyNum s)) X output_names (Some (Cst a)) dt optim (Some v)
        = Inl (NotImplementedError ''Only DotProduct for two dimension train set is implemented.''))
   \<and> (is_float d \<longrightarrow> \<not> float_overflow (s ^ 2) \<longrightarrow> 9 \<le> w \<longrightarrow>
        x_train = None \<or> x_train = Some (Cst b) \<and> length (np_shape (elems b)) = 2 \<longrightarrow>
        \<not> isl (convert_kernel (DotProduct (PyNum s)) X output_names x_train (Some d) optim (Some w)))"
  by (auto simp: and_then_def convert_dot_product_def py_make_float_array_def is_float_def Let_def)

lemma float_overflow_one: "\<not> float_overflow (1 ^ 2)"
  by (simp add: float_overflow_def)

theorem dot_product_train_rank_checked_witness:
  "convert_kernel (DotProduct (PyNum 1)) (Var ''X'') None (Some (Cst (NdArray Float32 (Vec [1, 2]))))
      (Some Float32) None (Some 13)
     = Inl (NotImplementedError ''Only DotProduct for two dimension train set is implemented.'')
   \<and> \<not> isl (convert_kernel (DotProduct (PyNum 1)) (Cst (NdArray Float32 (Vec [1, 2]))) None
              (Some (Cst (NdArray Float32 (Mat [[1, 2]])))) (Some Float32) None (Some 13))"
  using dot_product_train_rank_checked[where a = "NdArray Float32 (Vec [1, 2])" and s = 1
      and X = "Var ''X''" and output_names = None and dt = "Some Float32" and optim = None
      and v = 13 and w = 13 and d = Float32 and x_train = None]
    dot_product_train_rank_checked[where a = "NdArray Float32 (Vec [1, 2])" and s = 1
      and X = "Cst (NdArray Float32 (Vec [1, 2]))" and output_names = None and dt = "Some Float32"
      and optim = None and v = 13 and w = 13 and d = Float32
      and x_train = "Some (Cst (NdArray Float32 (Mat [[1, 2]])))"
      and b = "NdArray Float32 (Mat [[1, 2]])"]
    float_overflow_one
  by (simp add: is_float_def ncols_def del: convert_kernel.simps)

section \<open>Unsupported smoothness\<close>

text \<open>
  Claim C10, as stated, has \<open>convert_kernel\<close> raise the unsupported-construct error and
  \<open>convert_kernel_diag\<close> succeed for every \<open>Matern\<close> kernel whose \<open>nu\<close> has no
  formula. With a training set and the unknown strategy \<open>fast\<close>, \<open>convert_kernel\<close> raises
  the configuration error of the strategy choice, which comes before the test of \<open>nu\<close>;
  and with \<open>op_version=8\<close>, which has no \<open>ConstantOfShape\<close>, \<open>convert_kernel_diag\<close>
  raises too.
\<close>

theorem matern_unsupported_nu_counterexample:
  "convert_kernel (Matern (PyNum 1) (Nu 1)) (Var ''X'') None (Some (Var ''Y'')) (Some Float32)
      (Some ''fast'') (Some 13)
     = Inl (ValueError ''Unknown optimization'')
   \<and> convert_kernel_diag (Matern (PyNum 1) (Nu 1)) (Var ''X'') None (Some Float32) None (Some 8)
     = Inl (RuntimeError ''Operator OnnxConstantOfShape: requested version < 9 schema version.'')"
  by (simp add: compile_defs)

text \<open>
  Claim C10, amended. For a \<open>Matern\<close> kernel whose \<open>nu\<close> is none of 0.5, 1.5, 2.5 and
  infinity, in a call with an \<open>op_version\<close> of at least 9 and with either no training set
  or a recognised distance strategy: \<open>convert_kernel\<close> raises "The converter is not
  implemented for Matern", while \<open>convert_kernel_diag\<close>, for a numeric precision or
  none, returns a graph, whose value for a floating precision and an input of rank two
  with \<open>n\<close> rows is the vector of \<open>n\<close> ones.
\<close>

theorem matern_unsupported_nu:
  assumes "nu \<noteq> Nu 0.5" and "nu \<noteq> Nu 1.5" and "nu \<noteq> Nu 2.5" and "nu \<noteq> NuInf"
      and "x_train = None \<or> optim = None \<or> optim = Some ''cdist''"
      and "9 \<le> v"
  shows "convert_kernel (Matern length_scale nu) X output_names x_train dt optim (Some v)
           = Inl (RuntimeError ''The converter is not implemented for Matern(nu=...)'')
       \<and> (dt \<noteq> Some PyObject \<longrightarrow>
            \<not> isl (convert_kernel_diag (Matern length_scale nu) X output_names dt optim (Some v)))
       \<and> (is_float d \<longrightarrow> eval env X = Some (NdArray dx t) \<longrightarrow> proper t \<longrightarrow>
            np_shape t = [n, m] \<longrightarrow>
            run env (convert_kernel_diag (Matern length_scale nu) X output_names (Some d) optim (Some v))
              = Some (NdArray d (Vec (replicate n 1))))"
proof (intro conjI impI)
  show "convert_kernel (Matern length_scale nu) X output_names x_train dt optim (Some v)
          = Inl (RuntimeError ''The converter is not implemented for Matern(nu=...)'')"
    using assms(1-5) by (cases x_train) (auto simp: and_then_def scaled_dist_def Let_def)
next
  assume "dt \<noteq> Some PyObject"
  then show "\<not> isl (convert_kernel_diag (Matern length_scale nu) X output_names dt optim (Some v))"
    using assms(6)
    by (cases dt)
       (simp_all add: and_then_def zero_vector_of_size_def OnnxConstantOfShape_node_def
          from_array_def np_array_def Let_def)
next
  assume d: "is_float d" and X: "eval env X = Some (NdArray dx t)"
    and s: "np_shape t = [n, m]"
  from d have "Some d \<noteq> Some PyObject"
    by (auto simp: is_float_def)
  then have "run env (zero_vector_of_size X None 0 (Some 0) (Some d) (Some v))
          = Some (NdArray d (Vec (replicate n 0)))"
    using zero_vector_run[OF X s assms(6), of "Some d" None 0 0] by simp
  then show "run env (convert_kernel_diag (Matern length_scale nu) X output_names (Some d) optim (Some v))
          = Some (NdArray d (Vec (replicate n 1)))"
    using d
    by (auto simp: run_def and_then_def np_array_def elementwise2_def add_real_fun bc_list_scalar
             split: sum.splits)
qed

theorem matern_unsupported_nu_witness:
  "convert_kernel (Matern (PyNum 1) (Nu 1)) (Var ''X'') None None (Some Float32) None (Some 13)
     = Inl (RuntimeError ''The converter is not implemented for Matern(nu=...)'')
   \<and> \<not> isl (convert_kernel_diag (Matern (PyNum 1) (Nu 1)) (Var ''X'') None (Some Float32) None
              (Some 13))
   \<and> run [''X'' \<mapsto> NdArray Float32 (Mat [[1, 2, 3], [4, 5, 6]])]
       (convert_kernel_diag (Matern (PyNum 1) (Nu 1)) (Var ''X'') None (Some Float32) None (Some 13))
     = Some (NdArray Float32 (Vec [1, 1]))"
  using matern_unsupported_nu[where nu = "Nu 1" and x_train = None and optim = None
          and length_scale = "PyNum 1" and X = "Var ''X''" and output_names = None
          and dt = "Some Float32" and v = 13 and d = Float32
          and env = "[''X'' \<mapsto> NdArray Float32 (Mat [[1, 2, 3], [4, 5, 6]])]"
          and dx = Float32 and t = "Mat [[1, 2, 3], [4, 5, 6]]" and n = 2 and m = 3]
  by (simp add: is_float_def rectangular_def ncols_def replicate_numeral
           del: convert_kernel.simps convert_kernel_diag.simps)


section \<open>Sums and products\<close>

text \<open>
  Claim C8. Let the two sub-kernels be compiled on their own, with the same input,
  training set, precision, strategy and operator-set version, and let the two graphs
  have matrices of one floating type and one shape as values. Then the graph compiled for
  their \<open>Sum\<close> has the elementwise sum of the two matrices as its value, and the graph
  compiled for their \<open>Product\<close> the elementwise product. The same holds for
  \<open>convert_kernel_diag\<close> and vectors of one length.
\<close>

theorem sum_product_elementwise:
  "(is_float d \<longrightarrow> list_all2 (\<lambda>a b. length a = length b) A B \<longrightarrow>
      run env (convert_kernel k1 X None x_train dt optim (Some v)) = Some (NdArray d (Mat A)) \<longrightarrow>
      run env (convert_kernel k2 X None x_train dt optim (Some v)) = Some (NdArray d (Mat B)) \<longrightarrow>
        run env (convert_kernel (Sum k1 k2) X output_names x_train dt optim (Some v))
          = Some (NdArray d (Mat (map2 (map2 (+)) A B)))
      \<and> run env (convert_kernel (Product k1 k2) X output_names x_train dt optim (Some v))
          = Some (NdArray d (Mat (map2 (map2 (*)) A B))))
   \<and> (is_float d \<longrightarrow> length a = length b \<longrightarrow>
      run env (convert_kernel_diag k1 X None dt optim (Some v)) = Some (NdArray d (Vec a)) \<longrightarrow>
      run env (convert_kernel_diag k2 X None dt optim (Some v)) = Some (NdArray d (Vec b)) \<longrightarrow>
        run env (convert_kernel_diag (Sum k1 k2) X output_names dt optim (Some v))
          = Some (NdArray d (Vec (map2 (+) a b)))
      \<and> run env (convert_kernel_diag (Product k1 k2) X output_names dt optim (Some v))
          = Some (NdArray d (Vec (map2 (*) a b))))"
proof (intro conjI impI)
  assume d: "is_float d" and AB: "list_all2 (\<lambda>a b. length a = length b) A B"
    and r1: "run env (convert_kernel k1 X None x_train dt optim (Some v)) = Some (NdArray d (Mat A))"
    and r2: "run env (convert_kernel k2 X None x_train dt optim (Some v)) = Some (NdArray d (Mat B))"
  from r1 obtain g1 where g1: "convert_kernel k1 X None x_train dt optim (Some v) = Inr g1"
    "eval env g1 = Some (NdArray d (Mat A))"
    by (auto simp: run_def split: sum.splits)
  from r2 obtain g2 where g2: "convert_kernel k2 X None x_train dt optim (Some v) = Inr g2"
    "eval env g2 = Some (NdArray d (Mat B))"
    by (auto simp: run_def split: sum.splits)
  show "run env (convert_kernel (Sum k1 k2) X output_names x_train dt optim (Some v))
          = Some (NdArray d (Mat (map2 (map2 (+)) A B)))"
    using g1 g2 by (simp add: run_Op2 add_real_fun elementwise2_same_mat[OF d AB])
  show "run env (convert_kernel (Product k1 k2) X output_names x_train dt optim (Some v))
          = Some (NdArray d (Mat (map2 (map2 (*)) A B)))"
    using g1 g2 by (simp add: run_Op2 mul_real_fun elementwise2_same_mat[OF d AB])
next
  assume d: "is_float d" and ab: "length a = length b"
    and r1: "run env (convert_kernel_diag k1 X None dt optim (Some v)) = Some (NdArray d (Vec a))"
    and r2: "run env (convert_kernel_diag k2 X None dt optim (Some v)) = Some (NdArray d (Vec b))"
  from r1 obtain g1 where g1: "convert_kernel_diag k1 X None dt optim (Some v) = Inr g1"
    "eval env g1 = Some (NdArray d (Vec a))"
    by (auto simp: run_def split: sum.splits)
  from r2 obtain g2 where g2: "convert_kernel_diag k2 X None dt optim (Some v) = Inr g2"
    "eval env g2 = Some (NdArray d (Vec b))"
    by (auto simp: run_def split: sum.splits)
  show "run env (convert_kernel_diag (Sum k1 k2) X output_names dt optim (Some v))
          = Some (NdArray d (Vec (map2 (+) a b)))"
    using g1 g2 by (simp add: run_Op2 add_real_fun elementwise2_same_vec[OF d ab])
  show "run env (convert_kernel_diag (Product k1 k2) X output_names dt optim (Some v))
          = Some (NdArray d (Vec (map2 (*) a b)))"
    using g1 g2 by (simp add: run_Op2 mul_real_fun elementwise2_same_vec[OF d ab])
qed

theorem sum_product_elementwise_witness:
  "run Map.empty
     (convert_kernel (Sum (ConstantKernel 2) (DotProduct (PyNum 1)))
        (Cst (NdArray Float32 (Mat [[1, 2], [3, 4]]))) None None (Some Float32) None (Some 13))
     = Some (NdArray Float32 (Mat [[8, 14], [14, 28]]))
   \<and> run Map.empty
     (convert_kernel (Product (ConstantKernel 2) (DotProduct (PyNum 1)))
        (Cst (NdArray Float32 (Mat [[1, 2], [3, 4]]))) None None (Some Float32) None (Some 13))
     = Some (NdArray Float32 (Mat [[12, 24], [24, 52]]))
   \<and> run Map.empty
     (convert_kernel_diag (Sum (ConstantKernel 2) (DotProduct (PyNum 1)))
        (Cst (NdArray Float32 (Mat [[1, 2], [3, 4]]))) None (Some Float32) None (Some 13))
     = Some (NdArray Float32 (Vec [8, 28]))
   \<and> run Map.empty
     (convert_kernel_diag (Product (ConstantKernel 2) (DotProduct (PyNum 1)))
        (Cst (NdArray Float32 (Mat [[1, 2], [3, 4]]))) None (Some Float32) None (Some 13))
     = Some (NdArray Float32 (Vec [12, 52]))"
proof -
  let ?X = "Cst (NdArray Float32 (Mat [[1, 2], [3, 4]]))"
  have d: "is_float Float32"
    by (simp add: is_float_def)
  have A: "run Map.empty (convert_kernel (ConstantKernel 2) ?X None None (Some Float32) None (Some 13))
             = Some (NdArray Float32 (Mat [[2, 2], [2, 2]]))"
    by (simp add: compile_defs eval_defs)
  have B: "run Map.empty (convert_kernel (DotProduct (PyNum 1)) ?X None None (Some Float32) None (Some 13))
             = Some (NdArray Float32 (Mat [[6, 12], [12, 26]]))"
    by (simp add: compile_defs eval_defs)
  have a: "run Map.empty (convert_kernel_diag (ConstantKernel 2) ?X None (Some Float32) None (Some 13))
             = Some (NdArray Float32 (Vec [2, 2]))"
    by (simp add: compile_defs eval_defs)
  have b: "run Map.empty (convert_kernel_diag (DotProduct (PyNum 1)) ?X None (Some Float32) None (Some 13))
             = Some (NdArray Float32 (Vec [6, 26]))"
    by (simp add: compile_defs eval_defs)
  have AB: "list_all2 (\<lambda>a b. length a = length b) [[2, 2], [2, 2 :: real]] [[6, 12], [12, 26 :: real]]"
    by simp
  have ab: "length [2, 2 :: real] = length [6, 26 :: real]"
    by simp
  show ?thesis
    using sum_product_elementwise[where d = Float32 and env = Map.empty and X = ?X
        and ?k1.0 = "ConstantKernel 2" and ?k2.0 = "DotProduct (PyNum 1)" and x_train = None
        and dt = "Some Float32" and optim = None and v = 13 and output_names = None
        and A = "[[2, 2], [2, 2]]" and B = "[[6, 12], [12, 26]]"
        and a = "[2, 2]" and b = "[6, 26]"] d A B a b AB ab
    by (simp del: convert_kernel.simps convert_kernel_diag.simps)
qed

section \<open>The distance under the fused strategy\<close>

text \<open>
  Claim C2 asks that a \<open>Matern\<close> kernel compiled with a training set be fed the
  Euclidean distance under either strategy. With \<open>nu = 0.5\<close> and unit length scale,
  the default strategy builds the distance with the metric \<open>euclidean\<close>, the fused one with
  \<open>sqeuclidean\<close>; on the points 0 and 2 the first graph has the value \<open>exp (- 2)\<close>
  and the second \<open>exp (- 4)\<close>.
\<close>

theorem matern_fused_squared_distance:
  "convert_kernel (Matern (PyNum 1) (Nu 0.5)) (Var ''X'') None (Some (Var ''Y'')) (Some Float32)
      None (Some 13)
     = Inr (Op1 OnnxExp
              (Op1 OnnxNeg
                 (Op2 (onnx_cdist euclidean (Some Float32))
                    (Op2 OnnxDiv (Var ''X'') (Cst (NdArray Float32 (Vec [1]))) None 13)
                    (Op2 OnnxDiv (Var ''Y'') (Cst (NdArray Float32 (Vec [1]))) None 13) None 13)
                 None 13)
              None 13)
   \<and> convert_kernel (Matern (PyNum 1) (Nu 0.5)) (Var ''X'') None (Some (Var ''Y'')) (Some Float32)
      (Some ''cdist'') (Some 13)
     = Inr (Op1 OnnxExp
              (Op1 OnnxNeg
                 (Op2 (OnnxCDist sqeuclidean)
                    (Op2 OnnxDiv (Var ''X'') (Cst (NdArray Float32 (Vec [1]))) None 13)
                    (Op2 OnnxDiv (Var ''Y'') (Cst (NdArray Float32 (Vec [1]))) None 13) None 13)
                 None 13)
              None 13)
   \<and> run [''X'' \<mapsto> NdArray Float32 (Mat [[0]]), ''Y'' \<mapsto> NdArray Float32 (Mat [[2]])]
       (convert_kernel (Matern (PyNum 1) (Nu 0.5)) (Var ''X'') None (Some (Var ''Y'')) (Some Float32)
          None (Some 13))
     = Some (NdArray Float32 (Mat [[exp (- 2)]]))
   \<and> run [''X'' \<mapsto> NdArray Float32 (Mat [[0]]), ''Y'' \<mapsto> NdArray Float32 (Mat [[2]])]
       (convert_kernel (Matern (PyNum 1) (Nu 0.5)) (Var ''X'') None (Some (Var ''Y'')) (Some Float32)
          (Some ''cdist'') (Some 13))
     = Some (NdArray Float32 (Mat [[exp (- 4)]]))"
  by (simp add: compile_defs eval_defs)

section \<open>The precision of the constants\<close>

text \<open>
  Claim C3 asks that every constant of one compilation be in the precision the caller
  supplied. For \<open>Matern\<close> with \<open>nu = 2.5\<close> compiled in float32, the constants of
  the graph are in float32 but the third, the 1 added to \<open>K\<close>, which is built with the
  builtin \<open>type\<close> as its dtype and so is an object array, whatever the precision.
\<close>

theorem matern_2_5_constant_precision:
  "map dtype
     (compiled_constants
        (convert_kernel (Matern (PyNum 1) (Nu 2.5)) (Var ''X'') None None (Some Float32) None (Some 13)))
   = [Float32, Float32, PyObject, Float32, Float32, Float32, Float32, Float32, Float32, Float32]
   \<and> NdArray PyObject (Vec [1])
       \<in> set (compiled_constants
            (convert_kernel (Matern (PyNum 1) (Nu 2.5)) (Var ''X'') None None (Some Float64) None
               (Some 13)))"
  by (simp add: compile_defs compiled_constants_def)

section \<open>The diagonal against the full matrix\<close>

text \<open>
  Claim C1 asks that the graph of \<open>convert_kernel_diag\<close> on \<open>X\<close> have the diagonal of
  the matrix of \<open>convert_kernel\<close>, called with the same points as \<open>x_train\<close>, as its
  value. For \<open>Matern\<close> with \<open>nu = 2.5\<close>, unit length scale, float32 and the two
  points (1, 2) and (3, 4), both compilations return a graph. The full graph adds the
  object constant of its formula to a floating tensor and has no value, with the training
  set given as an array, by name, or left out; the diagonal graph has the value one at
  both points, which is the diagonal of no value of the full graph.
\<close>

theorem matern_2_5_diagonal_mismatch:
  "\<not> isl (convert_kernel (Matern (PyNum 1) (Nu 2.5)) (Var ''X'') None
            (Some (Cst (NdArray Float32 (Mat [[1, 2], [3, 4]])))) (Some Float32) None (Some 13))
   \<and> run [''X'' \<mapsto> NdArray Float32 (Mat [[1, 2], [3, 4]])]
       (convert_kernel (Matern (PyNum 1) (Nu 2.5)) (Var ''X'') None
          (Some (Cst (NdArray Float32 (Mat [[1, 2], [3, 4]])))) (Some Float32) None (Some 13))
     = None
   \<and> run [''X'' \<mapsto> NdArray Float32 (Mat [[1, 2], [3, 4]])]
       (convert_kernel (Matern (PyNum 1) (Nu 2.5)) (Var ''X'') None (Some (Var ''X''))
          (Some Float32) None (Some 13))
     = None
   \<and> run [''X'' \<mapsto> NdArray Float32 (Mat [[1, 2], [3, 4]])]
       (convert_kernel (Matern (PyNum 1) (Nu 2.5)) (Var ''X'') None None
          (Some Float32) None (Some 13))
     = None
   \<and> run [''X'' \<mapsto> NdArray Float32 (Mat [[1, 2], [3, 4]])]
       (convert_kernel_diag (Matern (PyNum 1) (Nu 2.5)) (Var ''X'') None (Some Float32) None (Some 13))
     = Some (NdArray Float32 (Vec [1, 1]))
   \<and> run [''X'' \<mapsto> NdArray Float32 (Mat [[1, 2], [3, 4]])]
       (convert_kernel_diag (Matern (PyNum 1) (Nu 2.5)) (Var ''X'') None (Some Float32) None (Some 13))
     \<noteq> map_option diagonal
         (run [''X'' \<mapsto> NdArray Float32 (Mat [[1, 2], [3, 4]])]
            (convert_kernel (Matern (PyNum 1) (Nu 2.5)) (Var ''X'') None
               (Some (Cst (NdArray Float32 (Mat [[1, 2], [3, 4]])))) (Some Float32) None (Some 13)))"
  by (simp add: compile_defs eval_defs)

end
